theory Spec2Isabelle
  imports Complex_Main
begin

section \<open>The form schema\<close>

text \<open>
  The form holds eleven fields. The five numeric inputs hold a JavaScript number once an
  edit event has fired and \<open>undefined\<close> before (the default values name the six select
  fields only); the six selects hold a string. Numbers that reach the form come from
  \<open>parseInt(...) || 0\<close>, so they are integers. One record serves for the values of the
  form (\<open>'n = int option\<close>, \<open>'e = string option\<close>, \<open>None\<close> for \<open>undefined\<close>) and for the
  parsed \<open>FormData\<close> (\<open>'n = int\<close>, \<open>'e = string\<close>).
\<close>

record ('n, 'e) fields =
  age :: 'n
  gender :: 'e
  height :: 'n
  weight :: 'n
  ap_hi :: 'n
  ap_lo :: 'n
  cholesterol :: 'e
  gluc :: 'e
  smoke :: 'e
  alco :: 'e
  active :: 'e

type_synonym form_values = "(int option, string option) fields"
type_synonym FormData = "(int, string) fields"

text \<open>
  A zod issue: the path of the field, the issue code and the message. The message is the
  one the schema gives, or the library's own text where the schema gives none.
\<close>

datatype issue_code = invalid_type | too_small | too_big | invalid_enum_value

datatype issue_message = Message string | Library_default

record issue =
  path :: string
  code :: issue_code
  message :: issue_message

text \<open>
  \<open>z.number().min(lo, lo_msg).max(hi, hi_msg)\<close>: a value that is not a number is an
  \<open>invalid_type\<close> issue; on a number every check runs, and each failed check adds its
  issue.
\<close>

definition z_number ::
  "int \<Rightarrow> string \<Rightarrow> int \<Rightarrow> string \<Rightarrow> string \<Rightarrow> int option \<Rightarrow> issue list + int" where
  "z_number lo lo_msg hi hi_msg p v =
     (case v of
        None \<Rightarrow> Inl [\<lparr>path = p, code = invalid_type, message = Library_default\<rparr>]
      | Some n \<Rightarrow>
          (let issues =
                 (if n < lo then [\<lparr>path = p, code = too_small, message = Message lo_msg\<rparr>] else [])
               @ (if n > hi then [\<lparr>path = p, code = too_big, message = Message hi_msg\<rparr>] else [])
           in if issues = [] then Inr n else Inl issues))"

text \<open>
  \<open>z.enum(options, { required_error })\<close>: \<open>undefined\<close> is an \<open>invalid_type\<close> issue with the
  \<open>required_error\<close> text, a string outside the options an \<open>invalid_enum_value\<close> issue.
\<close>

definition z_enum :: "string list \<Rightarrow> string \<Rightarrow> string \<Rightarrow> string option \<Rightarrow> issue list + string" where
  "z_enum options required_error p v =
     (case v of
        None \<Rightarrow> Inl [\<lparr>path = p, code = invalid_type, message = Message required_error\<rparr>]
      | Some s \<Rightarrow>
          if s \<in> set options then Inr s
          else Inl [\<lparr>path = p, code = invalid_enum_value, message = Library_default\<rparr>])"

text \<open>
  \<open>z.object\<close> parses every key of its shape, in the order of the shape, and keeps the
  issues of all of them; it yields the parsed object only when no key has an issue.
  \<open>z_key\<close> adds one key to the object being parsed.
\<close>

fun z_key :: "issue list + ('a \<Rightarrow> 'b) \<Rightarrow> issue list + 'a \<Rightarrow> issue list + 'b" where
  "z_key (Inr f) (Inr x) = Inr (f x)"
| "z_key (Inr f) (Inl js) = Inl js"
| "z_key (Inl is) (Inr x) = Inl is"
| "z_key (Inl is) (Inl js) = Inl (is @ js)"

definition formSchema :: "form_values \<Rightarrow> issue list + FormData" where
  "formSchema v =
     z_key (z_key (z_key (z_key (z_key (z_key (z_key (z_key (z_key (z_key (z_key
       (Inr (\<lambda>a g h w hi lo c gl s al ac.
          \<lparr>age = a, gender = g, height = h, weight = w, ap_hi = hi, ap_lo = lo,
           cholesterol = c, gluc = gl, smoke = s, alco = al, active = ac\<rparr>))
       (z_number 1 ''Age must be at least 1 day'' 50000 ''Age seems unrealistic''
          ''age'' (age v)))
       (z_enum [''1'', ''2''] ''Please select gender'' ''gender'' (gender v)))
       (z_number 50 ''Height must be at least 50 cm'' 250 ''Height must be less than 250 cm''
          ''height'' (height v)))
       (z_number 10 ''Weight must be at least 10 kg'' 300 ''Weight must be less than 300 kg''
          ''weight'' (weight v)))
       (z_number 70 ''Systolic pressure must be at least 70'' 250
          ''Systolic pressure seems too high'' ''ap_hi'' (ap_hi v)))
       (z_number 40 ''Diastolic pressure must be at least 40'' 150
          ''Diastolic pressure seems too high'' ''ap_lo'' (ap_lo v)))
       (z_enum [''1'', ''2'', ''3''] ''Please select cholesterol level''
          ''cholesterol'' (cholesterol v)))
       (z_enum [''1'', ''2'', ''3''] ''Please select glucose level'' ''gluc'' (gluc v)))
       (z_enum [''0'', ''1''] ''Please select smoking status'' ''smoke'' (smoke v)))
       (z_enum [''0'', ''1''] ''Please select alcohol consumption'' ''alco'' (alco v)))
       (z_enum [''0'', ''1''] ''Please select physical activity level'' ''active'' (active v))"

text \<open>
  \<open>zodResolver\<close> turns the issues into the form's field errors: the first issue of each
  path becomes the error of that field (its type and message).
\<close>

type_synonym field_errors = "string \<rightharpoonup> issue_code \<times> issue_message"

fun parseErrorSchema :: "issue list \<Rightarrow> field_errors \<Rightarrow> field_errors" where
  "parseErrorSchema [] errors = errors"
| "parseErrorSchema (i # rest) errors =
     parseErrorSchema rest
       (if errors (path i) = None then errors(path i \<mapsto> (code i, message i)) else errors)"

definition zodResolver :: "form_values \<Rightarrow> field_errors + FormData" where
  "zodResolver v =
     (case formSchema v of
        Inl issues \<Rightarrow> Inl (parseErrorSchema issues Map.empty)
      | Inr data \<Rightarrow> Inr data)"

text \<open>
  The default values of the form: the six selects are set, the five numeric inputs are
  not.
\<close>

definition defaultValues :: form_values where
  "defaultValues =
     \<lparr>age = None, gender = Some ''1'', height = None, weight = None, ap_hi = None, ap_lo = None,
      cholesterol = Some ''1'', gluc = Some ''1'', smoke = Some ''0'', alco = Some ''0'',
      active = Some ''1''\<rparr>"


section \<open>JavaScript numbers and strings\<close>

text \<open>
  A number is \<open>NaN\<close> or a value; values are rationals (the rounding of floating point
  and the infinities are left out), and integers where the code can only produce an
  integer. Strings are lists of characters below 256.
\<close>

datatype 'a number = NaN | Num 'a

text \<open>
  \<open>Number.prototype.toString\<close> on an integer: the decimal digits, after a minus sign when
  it is negative (the exponent notation of integers from \<open>10^21\<close> on is left out).
\<close>

function show_digits :: "int \<Rightarrow> string" where
  "show_digits n =
     (if n < 10 then [char_of (48 + n)]
      else show_digits (n div 10) @ [char_of (48 + n mod 10)])"
  by pat_completeness auto
termination
  by (relation "measure nat") auto

declare show_digits.simps [simp del]

definition show_int :: "int \<Rightarrow> string" where
  "show_int i = (if i < 0 then CHR ''-'' # show_digits (- i) else show_digits i)"

text \<open>The string of a number in a template literal.\<close>

fun ToString :: "int number \<Rightarrow> string" where
  "ToString NaN = ''NaN''"
| "ToString (Num i) = show_int i"

text \<open>
  \<open>parseInt(string)\<close> with no radix: leading white space is dropped, then a sign, then
  \<open>0x\<close> or \<open>0X\<close> (which selects radix 16); the longest run of digits of the radix is the
  value, and no digit at all gives \<open>NaN\<close>. The value is the exact integer; the code has
  the nearest double, which differs only beyond \<open>2^53\<close>, above every maximum of the
  schema.
\<close>

definition StrWhiteSpaceChar :: "char \<Rightarrow> bool" where
  "StrWhiteSpaceChar c = ((of_char c :: nat) \<in> {9, 10, 11, 12, 13, 32, 160})"

definition digit_value :: "int \<Rightarrow> char \<Rightarrow> int option" where
  "digit_value R c =
     (let k = (of_char c :: int);
          d = (if 48 \<le> k \<and> k \<le> 57 then Some (k - 48)
               else if 97 \<le> k \<and> k \<le> 122 then Some (k - 87)
               else if 65 \<le> k \<and> k \<le> 90 then Some (k - 55)
               else None)
      in case d of None \<Rightarrow> None | Some x \<Rightarrow> if x < R then Some x else None)"

fun digits_value :: "int \<Rightarrow> int \<Rightarrow> string \<Rightarrow> int" where
  "digits_value R acc [] = acc"
| "digits_value R acc (c # cs) =
     (case digit_value R c of
        None \<Rightarrow> acc
      | Some d \<Rightarrow> digits_value R (acc * R + d) cs)"

definition parseInt :: "string \<Rightarrow> int number" where
  "parseInt string =
     (let S = dropWhile StrWhiteSpaceChar string;
          sign = (case S of c # _ \<Rightarrow> if c = CHR ''-'' then - 1 else 1 | [] \<Rightarrow> (1::int));
          S1 = (case S of c # rest \<Rightarrow> if c = CHR ''+'' \<or> c = CHR ''-'' then rest else S
                | [] \<Rightarrow> S);
          R = (if take 2 S1 = ''0x'' \<or> take 2 S1 = ''0X'' then 16 else (10::int));
          S2 = (if R = 16 then drop 2 S1 else S1);
          Z = takeWhile (\<lambda>c. digit_value R c \<noteq> None) S2
      in if Z = [] then NaN else Num (sign * digits_value R 0 Z))"

text \<open>\<open>x || 0\<close> on a number: \<open>NaN\<close> and zero are falsy.\<close>

fun or_zero :: "int number \<Rightarrow> int" where
  "or_zero NaN = 0"
| "or_zero (Num n) = (if n = 0 then 0 else n)"

text \<open>
  An object whose members are numbers, as the predictor's answer is: the list of its
  properties. Reading a property that the object lacks gives \<open>undefined\<close> (\<open>None\<close>).
\<close>

type_synonym object = "(string \<times> rat) list"

definition property :: "object \<Rightarrow> string \<Rightarrow> rat option" where
  "property obj p = map_of obj p"

text \<open>
  \<open>x * 100\<close>, where \<open>undefined\<close> converts to \<open>NaN\<close>; \<open>Math.round\<close>; \<open>x > k\<close>. The product
  is the exact one: where the product of the doubles falls on the other side of a half
  (0.285 times 100 is below 28.5 as a double), the code rounds to the neighbour of what
  is computed here. At 0.82 both give 82.
\<close>

fun times_100 :: "rat option \<Rightarrow> rat number" where
  "times_100 None = NaN"
| "times_100 (Some x) = Num (x * 100)"

fun Math_round :: "rat number \<Rightarrow> int number" where
  "Math_round NaN = NaN"
| "Math_round (Num x) = Num \<lfloor>x + 1 / 2\<rfloor>"

fun greater :: "int number \<Rightarrow> int \<Rightarrow> bool" where
  "greater NaN k = False"
| "greater (Num i) k = (i > k)"


section \<open>The state of the page\<close>

text \<open>
  An entry of the history, as \<open>onSubmit\<close> builds it: \<open>id\<close>, \<open>timestamp\<close>, the form data
  and the predictor's answer.
\<close>

record HistoryEntry =
  entry_id :: string
  entry_timestamp :: string
  entry_data :: FormData
  entry_result :: object

text \<open>
  The text stored under the key \<open>cardio_history\<close> of the session storage, by what
  \<open>JSON.parse\<close> makes of it: the empty string, a text that is not JSON (with the message
  of the \<open>SyntaxError\<close> that \<open>JSON.parse\<close> raises on it), or the JSON text of an array of
  entries, which is what the page itself writes. \<open>JSON.stringify\<close> of a list of entries
  gives a text that \<open>JSON.parse\<close> reads back as the same list: the entries hold strings
  and numbers only.
\<close>

datatype item = Empty_string | Not_json string | Json "HistoryEntry list"

text \<open>
  What the code throws and catches. All of them are instances of \<open>Error\<close>, and the
  handler reads their message only.
\<close>

datatype error = Error string | TypeError string | SyntaxError string

fun error_message :: "error \<Rightarrow> string" where
  "error_message (Error m) = m"
| "error_message (TypeError m) = m"
| "error_message (SyntaxError m) = m"

fun JSON_parse :: "item \<Rightarrow> error + HistoryEntry list" where
  "JSON_parse Empty_string = Inl (SyntaxError ''Unexpected end of JSON input'')"
| "JSON_parse (Not_json m) = Inl (SyntaxError m)"
| "JSON_parse (Json v) = Inr v"

definition JSON_stringify :: "HistoryEntry list \<Rightarrow> item" where
  "JSON_stringify v = Json v"

text \<open>A notification, \<open>toast({ title, description, variant })\<close>.\<close>

record toast =
  title :: string
  description :: string
  variant :: "string option"

text \<open>
  The predictor's answer to \<open>fetch\<close>: the promise rejects (with a \<open>TypeError\<close> of some
  message), or it resolves to a response with a status and a body; the body is the JSON
  text of an object, or a text on which \<open>response.json()\<close> rejects with a
  \<open>SyntaxError\<close>.
\<close>

datatype body = Json_body object | Bad_body string

datatype response = Response int body | Fetch_rejected string

definition ok :: "int \<Rightarrow> bool" where
  "ok status = (200 \<le> status \<and> status \<le> 299)"

type_synonym requestData = "(int number, int number) fields"

text \<open>
  The state: the values and the errors of the form, the two state variables of
  \<open>CardiovascularForm\<close>, the state variable of \<open>PredictionHistory\<close>, the item of the session
  storage (\<open>None\<close> when the key is absent), and the two logs of what has left the page:
  the toasts shown and the requests sent.
\<close>

record state =
  field_values :: form_values
  errors :: field_errors
  prediction :: "object option"
  isLoading :: bool
  history :: "HistoryEntry list"
  sessionStorage :: "item option"
  toasts :: "toast list"
  requests :: "requestData list"

definition initial :: "item option \<Rightarrow> state" where
  "initial stored =
     \<lparr>field_values = defaultValues, errors = Map.empty, prediction = None, isLoading = False,
      history = [], sessionStorage = stored, toasts = [], requests = []\<rparr>"


section \<open>The history in the session storage\<close>

text \<open>
  \<open>loadHistory\<close> of \<open>PredictionHistory\<close>: it reads the key and, when the stored text is
  truthy (present and not the empty string), sets the state to what \<open>JSON.parse\<close> returns.
  Nothing catches what \<open>JSON.parse\<close> throws: the error leaves \<open>loadHistory\<close>, and with it
  the effect that runs it when the component mounts.
\<close>

definition loadHistory :: "state \<Rightarrow> error + state" where
  "loadHistory s =
     (case sessionStorage s of
        None \<Rightarrow> Inr s
      | Some stored \<Rightarrow>
          if stored = Empty_string then Inr s
          else (case JSON_parse stored of
                  Inl e \<Rightarrow> Inl e
                | Inr v \<Rightarrow> Inr (s\<lparr>history := v\<rparr>)))"

text \<open>
  \<open>window.dispatchEvent(new Event('storage'))\<close> runs the listener \<open>handleStorageChange\<close>,
  which runs \<open>loadHistory\<close>; what a listener throws is reported and does not reach the
  caller of \<open>dispatchEvent\<close>.
\<close>

definition dispatchEvent_storage :: "state \<Rightarrow> state" where
  "dispatchEvent_storage s = (case loadHistory s of Inl e \<Rightarrow> s | Inr s' \<Rightarrow> s')"

definition clearHistory :: "state \<Rightarrow> state" where
  "clearHistory s = s\<lparr>sessionStorage := None, history := []\<rparr>"

text \<open>
  The lines of \<open>onSubmit\<close> that save an entry. \<open>read_history\<close> is
  \<open>JSON.parse(sessionStorage.getItem('cardio_history') || '[]')\<close>: an absent key and the
  empty string are falsy and give the text \<open>[]\<close>. \<open>newEntry\<close> takes its \<open>id\<close> from
  \<open>Date.now()\<close> and its \<open>timestamp\<close> from \<open>new Date().toISOString()\<close>; the two readings of
  the clock are arguments. \<open>append_history\<close> puts the new entry in front and stores the
  first ten.
\<close>

definition read_history :: "state \<Rightarrow> error + HistoryEntry list" where
  "read_history s =
     JSON_parse
       (case sessionStorage s of
          None \<Rightarrow> Json []
        | Some stored \<Rightarrow> if stored = Empty_string then Json [] else stored)"

definition newEntry :: "FormData \<Rightarrow> object \<Rightarrow> int \<Rightarrow> string \<Rightarrow> HistoryEntry" where
  "newEntry d r now stamp =
     \<lparr>entry_id = show_int now, entry_timestamp = stamp, entry_data = d, entry_result = r\<rparr>"

definition append_history :: "FormData \<Rightarrow> object \<Rightarrow> int \<Rightarrow> string \<Rightarrow> state \<Rightarrow> error + state" where
  "append_history d r now stamp s =
     (case read_history s of
        Inl e \<Rightarrow> Inl e
      | Inr entries \<Rightarrow>
          Inr (s\<lparr>sessionStorage :=
                   Some (JSON_stringify (take 10 (newEntry d r now stamp # entries)))\<rparr>))"

text \<open>A run of appends, one after the other; it stops at the first that throws.\<close>

fun appends :: "(FormData \<times> object \<times> int \<times> string) list \<Rightarrow> state \<Rightarrow> error + state" where
  "appends [] s = Inr s"
| "appends ((d, r, now, stamp) # rest) s =
     (case append_history d r now stamp s of
        Inl e \<Rightarrow> Inl e
      | Inr s' \<Rightarrow> appends rest s')"

section \<open>Submitting the form\<close>

text \<open>The body of the request: every field goes through \<open>parseInt\<close>.\<close>

definition requestData :: "FormData \<Rightarrow> requestData" where
  "requestData d =
     \<lparr>age = parseInt (show_int (age d)),
      gender = parseInt (gender d),
      height = parseInt (show_int (height d)),
      weight = parseInt (show_int (weight d)),
      ap_hi = parseInt (show_int (ap_hi d)),
      ap_lo = parseInt (show_int (ap_lo d)),
      cholesterol = parseInt (cholesterol d),
      gluc = parseInt (gluc d),
      smoke = parseInt (smoke d),
      alco = parseInt (alco d),
      active = parseInt (active d)\<rparr>"

definition success_toast :: "object \<Rightarrow> toast" where
  "success_toast r =
     \<lparr>title = ''Prediction Complete'',
      description =
        ''Risk level: '' @ (if property r ''prediction'' = Some 1 then ''High'' else ''Low'')
        @ '' ('' @ ToString (Math_round (times_100 (property r ''probability'')))
        @ ''% confidence)'',
      variant = None\<rparr>"

definition error_toast :: "error \<Rightarrow> toast" where
  "error_toast e =
     \<lparr>title = ''Error'', description = error_message e, variant = Some ''destructive''\<rparr>"

text \<open>
  The \<open>try\<close> block of \<open>onSubmit\<close>: the state it reaches, and what it threw if it threw.
  The predictor is the function \<open>fetch\<close> from the request to the response; the request is
  logged when it is sent.
\<close>

definition try_block ::
  "FormData \<Rightarrow> (requestData \<Rightarrow> response) \<Rightarrow> int \<Rightarrow> string \<Rightarrow> state \<Rightarrow> state \<times> error option" where
  "try_block d fetch now stamp s =
     (let s1 = s\<lparr>requests := requests s @ [requestData d]\<rparr>
      in case fetch (requestData d) of
           Fetch_rejected m \<Rightarrow> (s1, Some (TypeError m))
         | Response status b \<Rightarrow>
             if \<not> ok status
             then (s1, Some (Error (''HTTP error! status: '' @ show_int status)))
             else (case b of
                     Bad_body m \<Rightarrow> (s1, Some (SyntaxError m))
                   | Json_body r \<Rightarrow>
                       (let s2 = s1\<lparr>prediction := Some r\<rparr>
                        in case append_history d r now stamp s2 of
                             Inl e \<Rightarrow> (s2, Some e)
                           | Inr s3 \<Rightarrow>
                               (let s4 = dispatchEvent_storage s3
                                in (s4\<lparr>toasts := toasts s4 @ [success_toast r]\<rparr>, None)))))"

text \<open>\<open>onSubmit\<close>: the \<open>try\<close> block between the two updates of \<open>isLoading\<close>, and the handler.\<close>

definition onSubmit ::
  "FormData \<Rightarrow> (requestData \<Rightarrow> response) \<Rightarrow> int \<Rightarrow> string \<Rightarrow> state \<Rightarrow> state" where
  "onSubmit d fetch now stamp s =
     (case try_block d fetch now stamp (s\<lparr>isLoading := True\<rparr>) of
        (s1, thrown) \<Rightarrow>
          (case thrown of
             None \<Rightarrow> s1
           | Some e \<Rightarrow> s1\<lparr>toasts := toasts s1 @ [error_toast e]\<rparr>)
          \<lparr>isLoading := False\<rparr>)"

text \<open>
  \<open>form.handleSubmit(onSubmit)\<close>: the resolver runs on the values of the form; with errors
  they become the errors of the form and \<open>onSubmit\<close> is not called, without errors
  \<open>onSubmit\<close> runs on the parsed data.
\<close>

definition handleSubmit :: "(requestData \<Rightarrow> response) \<Rightarrow> int \<Rightarrow> string \<Rightarrow> state \<Rightarrow> state" where
  "handleSubmit fetch now stamp s =
     (case zodResolver (field_values s) of
        Inl errs \<Rightarrow> s\<lparr>errors := errs\<rparr>
      | Inr d \<Rightarrow> onSubmit d fetch now stamp (s\<lparr>errors := Map.empty\<rparr>))"

text \<open>
  The \<open>onChange\<close> of the five numeric inputs:
  \<open>field.onChange(parseInt(e.target.value) || 0)\<close>.
\<close>

definition onChange_age :: "string \<Rightarrow> state \<Rightarrow> state" where
  "onChange_age text s =
     s\<lparr>field_values := (field_values s)\<lparr>age := Some (or_zero (parseInt text))\<rparr>\<rparr>"

definition onChange_height :: "string \<Rightarrow> state \<Rightarrow> state" where
  "onChange_height text s =
     s\<lparr>field_values := (field_values s)\<lparr>height := Some (or_zero (parseInt text))\<rparr>\<rparr>"

definition onChange_weight :: "string \<Rightarrow> state \<Rightarrow> state" where
  "onChange_weight text s =
     s\<lparr>field_values := (field_values s)\<lparr>weight := Some (or_zero (parseInt text))\<rparr>\<rparr>"

definition onChange_ap_hi :: "string \<Rightarrow> state \<Rightarrow> state" where
  "onChange_ap_hi text s =
     s\<lparr>field_values := (field_values s)\<lparr>ap_hi := Some (or_zero (parseInt text))\<rparr>\<rparr>"

definition onChange_ap_lo :: "string \<Rightarrow> state \<Rightarrow> state" where
  "onChange_ap_lo text s =
     s\<lparr>field_values := (field_values s)\<lparr>ap_lo := Some (or_zero (parseInt text))\<rparr>\<rparr>"

section \<open>What is displayed\<close>

text \<open>
  \<open>PredictionResult\<close> reads \<open>prediction.prediction\<close> and \<open>prediction.confidence\<close> of the
  object it is given and shows the heading \<open>{riskLevel} Risk\<close>, the label
  \<open>Confidence: {confidence}%\<close> and a colour.
\<close>

record result_view =
  heading :: string
  label :: string
  riskColor :: string

definition PredictionResult :: "object \<Rightarrow> result_view" where
  "PredictionResult p =
     (let isHighRisk = (property p ''prediction'' = Some 1);
          confidence = Math_round (times_100 (property p ''confidence''));
          riskLevel = (if isHighRisk then ''High'' else ''Low'')
      in \<lparr>heading = riskLevel @ '' Risk'',
          label = ''Confidence: '' @ ToString confidence @ ''%'',
          riskColor =
            (if isHighRisk
             then (if greater confidence 70 then ''text-red-600'' else ''text-orange-500'')
             else (if greater confidence 70 then ''text-green-600'' else ''text-blue-500''))\<rparr>)"

text \<open>\<open>{prediction && <PredictionResult prediction={prediction} />}\<close>\<close>

definition displayed_result :: "state \<Rightarrow> result_view option" where
  "displayed_result s = map_option PredictionResult (prediction s)"

text \<open>The badge of an entry in the history panel.\<close>

definition getRiskBadge :: "rat option \<Rightarrow> rat option \<Rightarrow> string" where
  "getRiskBadge pred probability =
     (let isHighRisk = (pred = Some 1);
          confidence = Math_round (times_100 probability)
      in if isHighRisk then ''High Risk ('' @ ToString confidence @ ''%)''
         else ''Low Risk ('' @ ToString confidence @ ''%)'')"

definition displayed_badges :: "state \<Rightarrow> string list" where
  "displayed_badges s =
     map (\<lambda>entry. getRiskBadge (property (entry_result entry) ''prediction'')
                                (property (entry_result entry) ''probability''))
       (history s)"


section \<open>The constraints of the data model\<close>

text \<open>
  The table of the data model, field by field: every field is required, the numeric
  fields have a range with both ends included, the others are one of their members.
  The members are written as the form holds them: gender \<open>1\<close> (male) or \<open>2\<close> (female),
  cholesterol and glucose \<open>1\<close>, \<open>2\<close> or \<open>3\<close> (normal, above normal, well above normal),
  smoker, alcohol and physically active \<open>0\<close> or \<open>1\<close>. \<open>violates v f\<close> says that the field
  named \<open>f\<close> of the values \<open>v\<close> violates its constraint.
\<close>

definition in_range :: "int \<Rightarrow> int \<Rightarrow> int option \<Rightarrow> bool" where
  "in_range lo hi x = (case x of None \<Rightarrow> False | Some n \<Rightarrow> lo \<le> n \<and> n \<le> hi)"

definition one_of :: "string list \<Rightarrow> string option \<Rightarrow> bool" where
  "one_of members x = (case x of None \<Rightarrow> False | Some m \<Rightarrow> m \<in> set members)"

definition violates :: "form_values \<Rightarrow> string \<Rightarrow> bool" where
  "violates v f =
     (f = ''age'' \<and> \<not> in_range 1 50000 (age v)
      \<or> f = ''gender'' \<and> \<not> one_of [''1'', ''2''] (gender v)
      \<or> f = ''height'' \<and> \<not> in_range 50 250 (height v)
      \<or> f = ''weight'' \<and> \<not> in_range 10 300 (weight v)
      \<or> f = ''ap_hi'' \<and> \<not> in_range 70 250 (ap_hi v)
      \<or> f = ''ap_lo'' \<and> \<not> in_range 40 150 (ap_lo v)
      \<or> f = ''cholesterol'' \<and> \<not> one_of [''1'', ''2'', ''3''] (cholesterol v)
      \<or> f = ''gluc'' \<and> \<not> one_of [''1'', ''2'', ''3''] (gluc v)
      \<or> f = ''smoke'' \<and> \<not> one_of [''0'', ''1''] (smoke v)
      \<or> f = ''alco'' \<and> \<not> one_of [''0'', ''1''] (alco v)
      \<or> f = ''active'' \<and> \<not> one_of [''0'', ''1''] (active v))"

section \<open>The scenarios\<close>

text \<open>
  The submission of the end-to-end scenarios (25 years old in days, male, 170 cm, 70 kg,
  120 over 80, normal cholesterol and glucose, no smoking, no alcohol, active), a
  predictor that gives the same response to every request, and the response of the
  first scenario, \<open>{ prediction: 0, probability: 0.82 }\<close> with status 200.
\<close>

definition scenario_values :: form_values where
  "scenario_values =
     \<lparr>age = Some 9125, gender = Some ''1'', height = Some 170, weight = Some 70,
      ap_hi = Some 120, ap_lo = Some 80, cholesterol = Some ''1'', gluc = Some ''1'',
      smoke = Some ''0'', alco = Some ''0'', active = Some ''1''\<rparr>"

definition scenario_data :: FormData where
  "scenario_data =
     \<lparr>age = 9125, gender = ''1'', height = 170, weight = 70,
      ap_hi = 120, ap_lo = 80, cholesterol = ''1'', gluc = ''1'',
      smoke = ''0'', alco = ''0'', active = ''1''\<rparr>"

definition stub :: "response \<Rightarrow> requestData \<Rightarrow> response" where
  "stub answer request = answer"

definition low_risk :: object where
  "low_risk = [(''prediction'', 0), (''probability'', 82 / 100)]"

definition filled :: "item option \<Rightarrow> state" where
  "filled stored = (initial stored)\<lparr>field_values := scenario_values\<rparr>"

text \<open>
  The first scenario starts at 2024-10-27T03:33:20.000Z, which is 1730000000000 on the
  clock of \<open>Date.now()\<close>.
\<close>

definition first_stamp :: string where
  "first_stamp = ''2024-10-27T03:33:20.000Z''"

definition after_scenario_1 :: state where
  "after_scenario_1 =
     handleSubmit (stub (Response 200 (Json_body low_risk))) 1730000000000 first_stamp
       (filled None)"

text \<open>A second submission that is saved while the clock still reads the same millisecond.\<close>

definition after_two_submissions :: state where
  "after_two_submissions =
     handleSubmit (stub (Response 200 (Json_body low_risk))) 1730000000000 first_stamp
       after_scenario_1"

text \<open>The third scenario: the same submission with a systolic pressure of 300.\<close>

definition pressure_too_high :: state where
  "pressure_too_high = (initial None)\<lparr>field_values := scenario_values\<lparr>ap_hi := Some 300\<rparr>\<rparr>"

text \<open>
  A session storage whose key holds the text \<open>broken\<close>, on which \<open>JSON.parse\<close> throws a
  \<open>SyntaxError\<close>, and the first scenario submitted there.
\<close>

definition broken_message :: string where
  "broken_message = ''Unexpected token b in JSON at position 0''"

definition after_submit_on_broken :: state where
  "after_submit_on_broken =
     handleSubmit (stub (Response 200 (Json_body low_risk))) 1730000000000 first_stamp
       (filled (Some (Not_json broken_message)))"

text \<open>
  A run of eleven appends, a millisecond apart, and the entry that an append makes of its
  arguments.
\<close>

fun entry_of :: "FormData \<times> object \<times> int \<times> string \<Rightarrow> HistoryEntry" where
  "entry_of (d, r, now, stamp) = newEntry d r now stamp"

definition eleven_appends :: "(FormData \<times> object \<times> int \<times> string) list" where
  "eleven_appends =
     map (\<lambda>k. (scenario_data, low_risk, 1730000000000 + k, first_stamp))
       [0, 1, 2, 3, 4, 5, 6, 7, 8, 9, 10]"

text \<open>The helpers of the proofs: the issues of a parse, and whether it fails only with issues.\<close>

fun issues_of :: "issue list + 'a \<Rightarrow> issue list" where
  "issues_of (Inl is) = is"
| "issues_of (Inr x) = []"

definition proper :: "issue list + 'a \<Rightarrow> bool" where
  "proper r = (isl r = (issues_of r \<noteq> []))"


section \<open>Validation reports exactly the violated fields\<close>

lemma z_key_issues: "issues_of (z_key f x) = issues_of f @ issues_of x"
  by (cases f; cases x) simp_all

lemma z_key_proper: "proper f \<Longrightarrow> proper x \<Longrightarrow> proper (z_key f x)"
  by (cases f; cases x) (simp_all add: proper_def)

lemma z_number_proper: "proper (z_number lo lm hi hm p x)"
  by (simp add: proper_def z_number_def Let_def split: option.splits)

lemma z_enum_proper: "proper (z_enum ms rq p x)"
  by (simp add: proper_def z_enum_def split: option.splits)

lemma proper_Inr: "proper (Inr f)"
  by (simp add: proper_def)

lemma z_number_paths:
  "lo \<le> hi \<Longrightarrow> map path (issues_of (z_number lo lm hi hm p x)) = (if in_range lo hi x then [] else [p])"
  by (auto simp: z_number_def in_range_def Let_def split: option.splits)

lemma z_enum_paths:
  "map path (issues_of (z_enum ms rq p x)) = (if one_of ms x then [] else [p])"
  by (auto simp: z_enum_def one_of_def split: option.splits)

lemma formSchema_proper: "proper (formSchema v)"
  unfolding formSchema_def
  by (intro z_key_proper z_number_proper z_enum_proper proper_Inr)

lemma formSchema_issues:
  "issues_of (formSchema v) =
     issues_of (z_number 1 ''Age must be at least 1 day'' 50000 ''Age seems unrealistic''
          ''age'' (age v))
   @ issues_of (z_enum [''1'', ''2''] ''Please select gender'' ''gender'' (gender v))
   @ issues_of (z_number 50 ''Height must be at least 50 cm'' 250 ''Height must be less than 250 cm''
          ''height'' (height v))
   @ issues_of (z_number 10 ''Weight must be at least 10 kg'' 300 ''Weight must be less than 300 kg''
          ''weight'' (weight v))
   @ issues_of (z_number 70 ''Systolic pressure must be at least 70'' 250
          ''Systolic pressure seems too high'' ''ap_hi'' (ap_hi v))
   @ issues_of (z_number 40 ''Diastolic pressure must be at least 40'' 150
          ''Diastolic pressure seems too high'' ''ap_lo'' (ap_lo v))
   @ issues_of (z_enum [''1'', ''2'', ''3''] ''Please select cholesterol level''
          ''cholesterol'' (cholesterol v))
   @ issues_of (z_enum [''1'', ''2'', ''3''] ''Please select glucose level'' ''gluc'' (gluc v))
   @ issues_of (z_enum [''0'', ''1''] ''Please select smoking status'' ''smoke'' (smoke v))
   @ issues_of (z_enum [''0'', ''1''] ''Please select alcohol consumption'' ''alco'' (alco v))
   @ issues_of (z_enum [''0'', ''1''] ''Please select physical activity level'' ''active'' (active v))"
  by (simp add: formSchema_def z_key_issues)

lemma formSchema_paths:
  "map path (issues_of (formSchema v)) =
     (if in_range 1 50000 (age v) then [] else [''age''])
   @ (if one_of [''1'', ''2''] (gender v) then [] else [''gender''])
   @ (if in_range 50 250 (height v) then [] else [''height''])
   @ (if in_range 10 300 (weight v) then [] else [''weight''])
   @ (if in_range 70 250 (ap_hi v) then [] else [''ap_hi''])
   @ (if in_range 40 150 (ap_lo v) then [] else [''ap_lo''])
   @ (if one_of [''1'', ''2'', ''3''] (cholesterol v) then [] else [''cholesterol''])
   @ (if one_of [''1'', ''2'', ''3''] (gluc v) then [] else [''gluc''])
   @ (if one_of [''0'', ''1''] (smoke v) then [] else [''smoke''])
   @ (if one_of [''0'', ''1''] (alco v) then [] else [''alco''])
   @ (if one_of [''0'', ''1''] (active v) then [] else [''active''])"
  by (simp add: formSchema_issues z_number_paths z_enum_paths)

lemma set_if_single: "set (if c then [] else [p]) = {q. q = p \<and> \<not> c}"
  by auto

lemma formSchema_path_set: "set (map path (issues_of (formSchema v))) = {f. violates v f}"
  unfolding formSchema_paths set_append set_if_single violates_def Collect_disj_eq
  by (rule refl)

lemma distinct_if_single: "distinct (if c then [] else [p])"
  by simp

lemma distinct_if_append:
  "distinct ((if c then [] else [p]) @ ys) = (distinct ys \<and> (c \<or> p \<notin> set ys))"
  by auto

lemma formSchema_paths_distinct: "distinct (map path (issues_of (formSchema v)))"
  unfolding formSchema_paths distinct_if_append distinct_if_single set_append set_if_single
  by simp

lemma parseErrorSchema_dom: "dom (parseErrorSchema is m) = dom m \<union> set (map path is)"
  by (induction "is" arbitrary: m) auto

lemma formSchema_isl: "isl (formSchema v) = (\<exists>f. violates v f)"
proof -
  have "isl (formSchema v) = (set (map path (issues_of (formSchema v))) \<noteq> {})"
    using formSchema_proper [of v] by (simp add: proper_def)
  then show ?thesis
    unfolding formSchema_path_set by blast
qed

lemma zodResolver_isl: "isl (zodResolver v) = isl (formSchema v)"
  by (cases "formSchema v") (simp_all add: zodResolver_def)

lemma zodResolver_dom:
  "dom (case zodResolver v of Inl errs \<Rightarrow> errs | Inr d \<Rightarrow> Map.empty) = {f. violates v f}"
proof (cases "formSchema v")
  case (Inl issues)
  then have "set (map path issues) = {f. violates v f}"
    using formSchema_path_set [of v] by simp
  with Inl show ?thesis
    by (simp add: zodResolver_def parseErrorSchema_dom)
next
  case (Inr d)
  then have "\<not> isl (formSchema v)" by simp
  then have "{f. violates v f} = {}"
    unfolding formSchema_isl by blast
  with Inr show ?thesis
    by (simp add: zodResolver_def)
qed

text \<open>
  C7. For all values of the form, validation rejects them if and only if at least one
  field violates its range or enum constraint; the paths of the issues reported are
  exactly the violated fields, each once, and so are the fields that get an error.
\<close>

theorem validate_reports_exactly_the_violated_fields:
  "isl (zodResolver v) = (\<exists>f. violates v f)
   \<and> set (map path (issues_of (formSchema v))) = {f. violates v f}
   \<and> distinct (map path (issues_of (formSchema v)))
   \<and> dom (case zodResolver v of Inl errs \<Rightarrow> errs | Inr d \<Rightarrow> Map.empty) = {f. violates v f}"
  by (simp only: zodResolver_isl formSchema_isl formSchema_path_set formSchema_paths_distinct
        zodResolver_dom simp_thms)

theorem validate_reports_exactly_the_violated_fields_witness:
  "isl (zodResolver (scenario_values\<lparr>age := Some 0, ap_hi := Some 300\<rparr>))
   \<and> map path (issues_of (formSchema (scenario_values\<lparr>age := Some 0, ap_hi := Some 300\<rparr>)))
       = [''age'', ''ap_hi'']
   \<and> {f. violates (scenario_values\<lparr>age := Some 0, ap_hi := Some 300\<rparr>) f} = {''age'', ''ap_hi''}"
proof -
  have paths:
    "map path (issues_of (formSchema (scenario_values\<lparr>age := Some 0, ap_hi := Some 300\<rparr>)))
       = [''age'', ''ap_hi'']"
    by code_simp
  have rejected: "isl (zodResolver (scenario_values\<lparr>age := Some 0, ap_hi := Some 300\<rparr>))"
    by code_simp
  from validate_reports_exactly_the_violated_fields
         [of "scenario_values\<lparr>age := Some 0, ap_hi := Some 300\<rparr>"]
  have "{f. violates (scenario_values\<lparr>age := Some 0, ap_hi := Some 300\<rparr>) f}
          = set [''age'', ''ap_hi'']"
    unfolding paths by simp
  with paths rejected show ?thesis by simp
qed

text \<open>
  C8. The bounds of the ranges are included: in the scenario's submission, each numeric
  field is accepted at both ends of its range and rejected one below and one above,
  with the issue of that bound.
\<close>

theorem range_bounds_are_inclusive:
  "formSchema (scenario_values\<lparr>age := Some 1\<rparr>) = Inr (scenario_data\<lparr>age := 1\<rparr>)
   \<and> formSchema (scenario_values\<lparr>age := Some 50000\<rparr>) = Inr (scenario_data\<lparr>age := 50000\<rparr>)
   \<and> formSchema (scenario_values\<lparr>age := Some 0\<rparr>)
       = Inl [\<lparr>path = ''age'', code = too_small, message = Message ''Age must be at least 1 day''\<rparr>]
   \<and> formSchema (scenario_values\<lparr>age := Some 50001\<rparr>)
       = Inl [\<lparr>path = ''age'', code = too_big, message = Message ''Age seems unrealistic''\<rparr>]
   \<and> formSchema (scenario_values\<lparr>height := Some 50\<rparr>) = Inr (scenario_data\<lparr>height := 50\<rparr>)
   \<and> formSchema (scenario_values\<lparr>height := Some 250\<rparr>) = Inr (scenario_data\<lparr>height := 250\<rparr>)
   \<and> formSchema (scenario_values\<lparr>height := Some 49\<rparr>)
       = Inl [\<lparr>path = ''height'', code = too_small,
              message = Message ''Height must be at least 50 cm''\<rparr>]
   \<and> formSchema (scenario_values\<lparr>height := Some 251\<rparr>)
       = Inl [\<lparr>path = ''height'', code = too_big,
              message = Message ''Height must be less than 250 cm''\<rparr>]
   \<and> formSchema (scenario_values\<lparr>weight := Some 10\<rparr>) = Inr (scenario_data\<lparr>weight := 10\<rparr>)
   \<and> formSchema (scenario_values\<lparr>weight := Some 300\<rparr>) = Inr (scenario_data\<lparr>weight := 300\<rparr>)
   \<and> formSchema (scenario_values\<lparr>weight := Some 9\<rparr>)
       = Inl [\<lparr>path = ''weight'', code = too_small,
              message = Message ''Weight must be at least 10 kg''\<rparr>]
   \<and> formSchema (scenario_values\<lparr>weight := Some 301\<rparr>)
       = Inl [\<lparr>path = ''weight'', code = too_big,
              message = Message ''Weight must be less than 300 kg''\<rparr>]
   \<and> formSchema (scenario_values\<lparr>ap_hi := Some 70\<rparr>) = Inr (scenario_data\<lparr>ap_hi := 70\<rparr>)
   \<and> formSchema (scenario_values\<lparr>ap_hi := Some 250\<rparr>) = Inr (scenario_data\<lparr>ap_hi := 250\<rparr>)
   \<and> formSchema (scenario_values\<lparr>ap_hi := Some 69\<rparr>)
       = Inl [\<lparr>path = ''ap_hi'', code = too_small,
              message = Message ''Systolic pressure must be at least 70''\<rparr>]
   \<and> formSchema (scenario_values\<lparr>ap_hi := Some 251\<rparr>)
       = Inl [\<lparr>path = ''ap_hi'', code = too_big,
              message = Message ''Systolic pressure seems too high''\<rparr>]
   \<and> formSchema (scenario_values\<lparr>ap_lo := Some 40\<rparr>) = Inr (scenario_data\<lparr>ap_lo := 40\<rparr>)
   \<and> formSchema (scenario_values\<lparr>ap_lo := Some 150\<rparr>) = Inr (scenario_data\<lparr>ap_lo := 150\<rparr>)
   \<and> formSchema (scenario_values\<lparr>ap_lo := Some 39\<rparr>)
       = Inl [\<lparr>path = ''ap_lo'', code = too_small,
              message = Message ''Diastolic pressure must be at least 40''\<rparr>]
   \<and> formSchema (scenario_values\<lparr>ap_lo := Some 151\<rparr>)
       = Inl [\<lparr>path = ''ap_lo'', code = too_big,
              message = Message ''Diastolic pressure seems too high''\<rparr>]"
  by (intro conjI; code_simp)


section \<open>Submitting\<close>

lemma onSubmit_not_ok:
  "fetch (requestData d) = Response status b \<Longrightarrow> \<not> ok status \<Longrightarrow>
   onSubmit d fetch now stamp s
     = s\<lparr>requests := requests s @ [requestData d],
         toasts := toasts s @ [error_toast (Error (''HTTP error! status: '' @ show_int status))],
         isLoading := False\<rparr>"
  by (simp add: onSubmit_def try_block_def)

lemma onSubmit_not_json:
  "sessionStorage s = Some (Not_json m) \<Longrightarrow>
   fetch (requestData d) = Response status (Json_body r) \<Longrightarrow> ok status \<Longrightarrow>
   onSubmit d fetch now stamp s
     = s\<lparr>requests := requests s @ [requestData d],
         prediction := Some r,
         toasts := toasts s @ [error_toast (SyntaxError m)],
         isLoading := False\<rparr>"
  by (simp add: onSubmit_def try_block_def append_history_def read_history_def)

lemma loadHistory_cases:
  "loadHistory s =
     (case sessionStorage s of
        None \<Rightarrow> Inr s
      | Some Empty_string \<Rightarrow> Inr s
      | Some (Not_json m) \<Rightarrow> Inl (SyntaxError m)
      | Some (Json v) \<Rightarrow> Inr (s\<lparr>history := v\<rparr>))"
  by (simp add: loadHistory_def split: option.splits item.splits)

lemma handleSubmit_valid:
  "zodResolver (field_values s) = Inr d \<Longrightarrow>
   handleSubmit fetch now stamp s = onSubmit d fetch now stamp (s\<lparr>errors := Map.empty\<rparr>)"
  by (simp add: handleSubmit_def)

lemma scenario_valid: "zodResolver scenario_values = Inr scenario_data"
  by (simp add: zodResolver_def formSchema_def z_number_def z_enum_def scenario_values_def scenario_data_def)

lemma parseErrorSchema_find:
  "parseErrorSchema is m p =
     (case m p of
        Some e \<Rightarrow> Some e
      | None \<Rightarrow> map_option (\<lambda>i. (code i, message i)) (find (\<lambda>i. path i = p) is))"
  by (induction "is" arbitrary: m) (auto split: option.splits)

lemma find_append_cases:
  "find P (xs @ ys) = (case find P xs of None \<Rightarrow> find P ys | Some x \<Rightarrow> Some x)"
  by (induction xs) simp_all

lemma z_number_find_other:
  "p \<noteq> q \<Longrightarrow> find (\<lambda>i. path i = p) (issues_of (z_number lo lm hi hm q x)) = None"
  by (simp add: z_number_def Let_def split: option.splits)

lemma z_enum_find_other:
  "p \<noteq> q \<Longrightarrow> find (\<lambda>i. path i = p) (issues_of (z_enum ms rq q x)) = None"
  by (simp add: z_enum_def split: option.splits)

lemma z_number_find_zero:
  "0 < lo \<Longrightarrow> lo \<le> hi \<Longrightarrow>
   find (\<lambda>i. path i = p) (issues_of (z_number lo lm hi hm p (Some 0)))
     = Some \<lparr>path = p, code = too_small, message = Message lm\<rparr>"
  by (simp add: z_number_def Let_def)

lemma zodResolver_errors:
  "isl (formSchema v) \<Longrightarrow>
   zodResolver v = Inl (parseErrorSchema (issues_of (formSchema v)) Map.empty)"
  by (cases "formSchema v") (simp_all add: zodResolver_def)

lemma handleSubmit_errors:
  "isl (formSchema (field_values s)) \<Longrightarrow>
   handleSubmit fetch now stamp s
     = s\<lparr>errors := parseErrorSchema (issues_of (formSchema (field_values s))) Map.empty\<rparr>"
  by (simp add: handleSubmit_def zodResolver_errors)

lemma zero_violates:
  "age v = Some 0 \<Longrightarrow> violates v ''age''"
  "height v = Some 0 \<Longrightarrow> violates v ''height''"
  "weight v = Some 0 \<Longrightarrow> violates v ''weight''"
  "ap_hi v = Some 0 \<Longrightarrow> violates v ''ap_hi''"
  "ap_lo v = Some 0 \<Longrightarrow> violates v ''ap_lo''"
  by (simp_all add: violates_def in_range_def)

lemma age_zero_error:
  "age v = Some 0 \<Longrightarrow>
   parseErrorSchema (issues_of (formSchema v)) Map.empty ''age''
     = Some (too_small, Message ''Age must be at least 1 day'')"
  by (simp add: parseErrorSchema_find formSchema_issues find_append_cases z_number_find_zero)

lemma height_zero_error:
  "height v = Some 0 \<Longrightarrow>
   parseErrorSchema (issues_of (formSchema v)) Map.empty ''height''
     = Some (too_small, Message ''Height must be at least 50 cm'')"
  by (simp add: parseErrorSchema_find formSchema_issues find_append_cases z_number_find_zero
        z_number_find_other z_enum_find_other)

lemma weight_zero_error:
  "weight v = Some 0 \<Longrightarrow>
   parseErrorSchema (issues_of (formSchema v)) Map.empty ''weight''
     = Some (too_small, Message ''Weight must be at least 10 kg'')"
  by (simp add: parseErrorSchema_find formSchema_issues find_append_cases z_number_find_zero
        z_number_find_other z_enum_find_other)

lemma ap_hi_zero_error:
  "ap_hi v = Some 0 \<Longrightarrow>
   parseErrorSchema (issues_of (formSchema v)) Map.empty ''ap_hi''
     = Some (too_small, Message ''Systolic pressure must be at least 70'')"
  by (simp add: parseErrorSchema_find formSchema_issues find_append_cases z_number_find_zero
        z_number_find_other z_enum_find_other)

lemma ap_lo_zero_error:
  "ap_lo v = Some 0 \<Longrightarrow>
   parseErrorSchema (issues_of (formSchema v)) Map.empty ''ap_lo''
     = Some (too_small, Message ''Diastolic pressure must be at least 40'')"
  by (simp add: parseErrorSchema_find formSchema_issues find_append_cases z_number_find_zero
        z_number_find_other z_enum_find_other)

section \<open>Appending to the history\<close>

lemma read_history_cases:
  "read_history s =
     (case sessionStorage s of
        None \<Rightarrow> Inr []
      | Some Empty_string \<Rightarrow> Inr []
      | Some (Not_json m) \<Rightarrow> Inl (SyntaxError m)
      | Some (Json v) \<Rightarrow> Inr v)"
  by (simp add: read_history_def split: option.splits item.splits)

lemma append_history_read:
  "read_history s = Inr entries \<Longrightarrow>
   append_history d r now stamp s
     = Inr (s\<lparr>sessionStorage := Some (Json (take 10 (newEntry d r now stamp # entries)))\<rparr>)"
  by (simp add: append_history_def JSON_stringify_def)

lemma read_history_stored:
  "read_history (s\<lparr>sessionStorage := Some (Json entries)\<rparr>) = Inr entries"
  by (simp add: read_history_def)

lemma take_append_take: "take n (xs @ take n ys) = take n (xs @ ys)"
  by (simp add: min_def)

lemma appends_read:
  "read_history s = Inr entries \<Longrightarrow> length entries \<le> 10 \<Longrightarrow>
   \<exists>s'. appends xs s = Inr s'
      \<and> read_history s'
          = Inr (take 10 (rev (map entry_of xs) @ entries))
      \<and> (xs \<noteq> [] \<longrightarrow> sessionStorage s'
          = Some (Json (take 10 (rev (map entry_of xs) @ entries))))"
proof (induction xs arbitrary: s entries)
  case Nil
  then show ?case by simp
next
  case (Cons x xs)
  obtain d r now stamp where x: "x = (d, r, now, stamp)" by (cases x)
  let ?s = "s\<lparr>sessionStorage := Some (Json (take 10 (newEntry d r now stamp # entries)))\<rparr>"
  have step: "append_history d r now stamp s = Inr ?s"
    using Cons.prems(1) by (rule append_history_read)
  have "read_history ?s = Inr (take 10 (newEntry d r now stamp # entries))"
    by (rule read_history_stored)
  moreover have "length (take 10 (newEntry d r now stamp # entries)) \<le> 10"
    by simp
  ultimately obtain s' where
    s': "appends xs ?s = Inr s'"
    and r': "read_history s' = Inr (take 10 (rev (map entry_of xs)
               @ take 10 (newEntry d r now stamp # entries)))"
    and st: "xs \<noteq> [] \<longrightarrow> sessionStorage s' = Some (Json (take 10 (rev (map entry_of xs)
               @ take 10 (newEntry d r now stamp # entries))))"
    using Cons.IH by blast
  have a: "appends (x # xs) s = Inr s'"
    using step s' x by simp
  have e: "take 10 (rev (map entry_of xs)
               @ take 10 (newEntry d r now stamp # entries))
         = take 10 (rev (map entry_of (x # xs)) @ entries)"
    unfolding take_append_take using x by simp
  have "sessionStorage s' = Some (Json (take 10 (rev (map entry_of (x # xs)) @ entries)))"
  proof (cases xs)
    case Nil
    with s' have "s' = ?s" by simp
    then show ?thesis using Nil x by simp
  next
    case (Cons y ys)
    then show ?thesis using st e by simp
  qed
  with a r' e show ?case by simp
qed


section \<open>The claims about submitting\<close>

text \<open>
  C1. In the first scenario the predictor answers \<open>{ prediction: 0, probability: 0.82 }\<close>.
  The toast and the badge of the history read \<open>probability\<close> and show 82 percent, and the
  history gains the one entry with that outcome; the result panel reads \<open>confidence\<close>,
  which the answer does not have, and shows \<open>Low Risk\<close> with \<open>Confidence: NaN%\<close>.
\<close>

theorem scenario_1_result_panel_shows_NaN:
  "displayed_result after_scenario_1
     = Some \<lparr>heading = ''Low Risk'', label = ''Confidence: NaN%'',
             riskColor = ''text-blue-500''\<rparr>
   \<and> toasts after_scenario_1
     = [\<lparr>title = ''Prediction Complete'',
         description = ''Risk level: Low (82% confidence)'', variant = None\<rparr>]
   \<and> displayed_badges after_scenario_1 = [''Low Risk (82%)'']
   \<and> sessionStorage after_scenario_1
     = Some (Json [\<lparr>entry_id = ''1730000000000'', entry_timestamp = first_stamp,
                     entry_data = scenario_data, entry_result = low_risk\<rparr>])
   \<and> history after_scenario_1
     = [\<lparr>entry_id = ''1730000000000'', entry_timestamp = first_stamp,
         entry_data = scenario_data, entry_result = low_risk\<rparr>]"
  by (intro conjI; code_simp)

text \<open>
  C4. The \<open>id\<close> of an entry is the reading of the clock in milliseconds: two submissions
  saved within the same millisecond leave two entries with the same \<open>id\<close> in the log.
\<close>

theorem same_millisecond_gives_the_same_id:
  "map entry_id (history after_two_submissions) = [''1730000000000'', ''1730000000000'']
   \<and> map_sum error_message (map entry_id) (read_history after_two_submissions)
       = Inr [''1730000000000'', ''1730000000000'']
   \<and> \<not> distinct (map entry_id (history after_two_submissions))"
  by (intro conjI; code_simp)

text \<open>
  C5. When the predictor answers a valid submission with a status outside 200 to 299,
  the session storage, the history and the displayed result stay as they were, the
  in-flight flag is false again, and one error toast with the status is added.
\<close>

theorem non_success_status_leaves_history_and_result:
  assumes "zodResolver (field_values s) = Inr d"
    and "fetch (requestData d) = Response status b"
    and "\<not> ok status"
  shows "sessionStorage (handleSubmit fetch now stamp s) = sessionStorage s
    \<and> history (handleSubmit fetch now stamp s) = history s
    \<and> prediction (handleSubmit fetch now stamp s) = prediction s
    \<and> displayed_result (handleSubmit fetch now stamp s) = displayed_result s
    \<and> isLoading (handleSubmit fetch now stamp s) = False
    \<and> toasts (handleSubmit fetch now stamp s)
        = toasts s @ [\<lparr>title = ''Error'',
                        description = ''HTTP error! status: '' @ show_int status,
                        variant = Some ''destructive''\<rparr>]"
proof -
  have "handleSubmit fetch now stamp s
      = s\<lparr>errors := Map.empty,
          requests := requests s @ [requestData d],
          toasts := toasts s
            @ [error_toast (Error (''HTTP error! status: '' @ show_int status))],
          isLoading := False\<rparr>"
    using assms by (simp add: handleSubmit_valid onSubmit_not_ok)
  then show ?thesis
    by (simp add: displayed_result_def error_toast_def)
qed

theorem non_success_status_leaves_history_and_result_witness:
  "zodResolver (field_values (filled None)) = Inr scenario_data
   \<and> stub (Response 500 (Bad_body ''Internal Server Error'')) (requestData scenario_data)
       = Response 500 (Bad_body ''Internal Server Error'')
   \<and> \<not> ok 500
   \<and> sessionStorage (handleSubmit (stub (Response 500 (Bad_body ''Internal Server Error'')))
         1730000000000 first_stamp (filled None)) = None
   \<and> isLoading (handleSubmit (stub (Response 500 (Bad_body ''Internal Server Error'')))
         1730000000000 first_stamp (filled None)) = False
   \<and> displayed_result (handleSubmit (stub (Response 500 (Bad_body ''Internal Server Error'')))
         1730000000000 first_stamp (filled None)) = None
   \<and> toasts (handleSubmit (stub (Response 500 (Bad_body ''Internal Server Error'')))
         1730000000000 first_stamp (filled None))
       = [\<lparr>title = ''Error'', description = ''HTTP error! status: 500'',
           variant = Some ''destructive''\<rparr>]"
proof -
  have valid: "zodResolver (field_values (filled None)) = Inr scenario_data"
    by (simp add: filled_def scenario_valid)
  have answer: "stub (Response 500 (Bad_body ''Internal Server Error'')) (requestData scenario_data)
       = Response 500 (Bad_body ''Internal Server Error'')"
    by (simp add: stub_def)
  have status: "\<not> ok 500"
    by (simp add: ok_def)
  have digits: "show_int 500 = ''500''"
    by code_simp
  from non_success_status_leaves_history_and_result
         [where s = "filled None" and d = scenario_data
            and fetch = "stub (Response 500 (Bad_body ''Internal Server Error''))"
            and status = 500 and b = "Bad_body ''Internal Server Error''"
            and now = 1730000000000 and stamp = first_stamp, OF valid answer status]
  show ?thesis
    using valid answer status
    by (simp add: digits filled_def initial_def displayed_result_def)
qed

text \<open>
  C9. When a field of the form violates its constraint, submitting sends no request and
  leaves the session storage, the history, the toasts, the result and the in-flight flag
  as they were; the violating field gets an error.
\<close>

theorem invalid_submission_calls_nothing:
  assumes "violates (field_values s) f"
  shows "requests (handleSubmit fetch now stamp s) = requests s
    \<and> sessionStorage (handleSubmit fetch now stamp s) = sessionStorage s
    \<and> history (handleSubmit fetch now stamp s) = history s
    \<and> toasts (handleSubmit fetch now stamp s) = toasts s
    \<and> prediction (handleSubmit fetch now stamp s) = prediction s
    \<and> isLoading (handleSubmit fetch now stamp s) = isLoading s
    \<and> errors (handleSubmit fetch now stamp s) f \<noteq> None"
proof -
  from assms have rejected: "isl (formSchema (field_values s))"
    unfolding formSchema_isl by blast
  have "f \<in> set (map path (issues_of (formSchema (field_values s))))"
    unfolding formSchema_path_set using assms by simp
  then have "f \<in> dom (parseErrorSchema (issues_of (formSchema (field_values s))) Map.empty)"
    unfolding parseErrorSchema_dom by simp
  then show ?thesis
    unfolding handleSubmit_errors [OF rejected] by auto
qed

theorem invalid_submission_calls_nothing_witness:
  "violates (field_values pressure_too_high) ''ap_hi''
   \<and> requests (handleSubmit (stub (Response 200 (Json_body low_risk))) 1730000000000 first_stamp
        pressure_too_high) = []
   \<and> sessionStorage (handleSubmit (stub (Response 200 (Json_body low_risk))) 1730000000000
        first_stamp pressure_too_high) = None
   \<and> errors (handleSubmit (stub (Response 200 (Json_body low_risk))) 1730000000000 first_stamp
        pressure_too_high) ''ap_hi''
       = Some (too_big, Message ''Systolic pressure seems too high'')"
proof -
  have violated: "violates (field_values pressure_too_high) ''ap_hi''"
    by (simp add: pressure_too_high_def scenario_values_def violates_def in_range_def)
  have message: "errors (handleSubmit (stub (Response 200 (Json_body low_risk))) 1730000000000
        first_stamp pressure_too_high) ''ap_hi''
       = Some (too_big, Message ''Systolic pressure seems too high'')"
    by code_simp
  from invalid_submission_calls_nothing
         [OF violated, of "stub (Response 200 (Json_body low_risk))" 1730000000000 first_stamp]
  show ?thesis
    using violated message by (simp add: pressure_too_high_def initial_def)
qed


section \<open>The claims about the stored history\<close>

text \<open>
  C2, as stated, fails: with the text \<open>broken\<close> under the key, a submission that the
  predictor answers well ends with an error toast that carries the message of the
  \<open>SyntaxError\<close>; nothing is saved and no toast of success is shown.
\<close>

theorem unparsable_history_counterexample:
  "toasts after_submit_on_broken
     = [\<lparr>title = ''Error'', description = broken_message, variant = Some ''destructive''\<rparr>]
   \<and> sessionStorage after_submit_on_broken = Some (Not_json broken_message)
   \<and> history after_submit_on_broken = []"
  by (intro conjI; code_simp)

lemma onSubmit_saved:
  "read_history s = Inr entries \<Longrightarrow>
   fetch (requestData d) = Response status (Json_body r) \<Longrightarrow> ok status \<Longrightarrow>
   onSubmit d fetch now stamp s
     = s\<lparr>requests := requests s @ [requestData d],
         prediction := Some r,
         sessionStorage := Some (Json (take 10 (newEntry d r now stamp # entries))),
         history := take 10 (newEntry d r now stamp # entries),
         toasts := toasts s @ [success_toast r],
         isLoading := False\<rparr>"
  by (simp add: onSubmit_def try_block_def append_history_def read_history_def
        JSON_stringify_def dispatchEvent_storage_def loadHistory_def)

text \<open>
  C2, amended. Of the texts that \<open>JSON.parse\<close> rejects, only the empty string is
  recovered from, because it is never parsed: with the key absent or holding the
  empty string, \<open>loadHistory\<close> leaves the history as it is, and a submission that the
  predictor answers well stores the new entry alone, shows the toast of success and no
  error toast. With any other text that is not JSON no reader recovers: \<open>loadHistory\<close>
  throws the \<open>SyntaxError\<close>, and the submission keeps the answer as the result, throws
  the \<open>SyntaxError\<close> into the handler of \<open>onSubmit\<close>, which adds an error toast with its
  message, saves nothing and shows no toast of success. In both cases the in-flight flag
  is false at the end.
\<close>

theorem only_absent_or_empty_history_is_recovered:
  assumes "fetch (requestData d) = Response status (Json_body r)"
    and "ok status"
  shows "isl (JSON_parse Empty_string)
    \<and> (sessionStorage s = None \<or> sessionStorage s = Some Empty_string \<longrightarrow>
         loadHistory s = Inr s
         \<and> read_history s = Inr []
         \<and> onSubmit d fetch now stamp s
             = s\<lparr>requests := requests s @ [requestData d],
                 prediction := Some r,
                 sessionStorage := Some (Json [newEntry d r now stamp]),
                 history := [newEntry d r now stamp],
                 toasts := toasts s
                   @ [\<lparr>title = ''Prediction Complete'',
                       description = description (success_toast r), variant = None\<rparr>],
                 isLoading := False\<rparr>)
    \<and> (sessionStorage s = Some (Not_json m) \<longrightarrow>
         loadHistory s = Inl (SyntaxError m)
         \<and> read_history s = Inl (SyntaxError m)
         \<and> onSubmit d fetch now stamp s
             = s\<lparr>requests := requests s @ [requestData d],
                 prediction := Some r,
                 toasts := toasts s
                   @ [\<lparr>title = ''Error'', description = m, variant = Some ''destructive''\<rparr>],
                 isLoading := False\<rparr>)"
proof -
  have parse: "isl (JSON_parse Empty_string)"
    by simp
  have recovered: "loadHistory s = Inr s \<and> read_history s = Inr []
         \<and> onSubmit d fetch now stamp s
             = s\<lparr>requests := requests s @ [requestData d],
                 prediction := Some r,
                 sessionStorage := Some (Json [newEntry d r now stamp]),
                 history := [newEntry d r now stamp],
                 toasts := toasts s
                   @ [\<lparr>title = ''Prediction Complete'',
                       description = description (success_toast r), variant = None\<rparr>],
                 isLoading := False\<rparr>"
    if "sessionStorage s = None \<or> sessionStorage s = Some Empty_string"
  proof -
    from that have load: "loadHistory s = Inr s" and read: "read_history s = Inr []"
      by (auto simp: loadHistory_cases read_history_cases)
    have toast: "success_toast r
        = \<lparr>title = ''Prediction Complete'', description = description (success_toast r),
           variant = None\<rparr>"
      by (simp add: success_toast_def)
    from onSubmit_saved
           [where s = s and entries = "[]" and fetch = fetch and d = d and status = status
              and r = r and now = now and stamp = stamp, OF read assms]
      load read toast
    show ?thesis by simp
  qed
  have thrown: "loadHistory s = Inl (SyntaxError m) \<and> read_history s = Inl (SyntaxError m)
         \<and> onSubmit d fetch now stamp s
             = s\<lparr>requests := requests s @ [requestData d],
                 prediction := Some r,
                 toasts := toasts s
                   @ [\<lparr>title = ''Error'', description = m, variant = Some ''destructive''\<rparr>],
                 isLoading := False\<rparr>"
    if "sessionStorage s = Some (Not_json m)"
    using that assms
    by (simp add: loadHistory_cases read_history_cases onSubmit_not_json error_toast_def)
  from parse recovered thrown show ?thesis
    by blast
qed

theorem only_absent_or_empty_history_is_recovered_witness:
  "stub (Response 200 (Json_body low_risk)) (requestData scenario_data)
       = Response 200 (Json_body low_risk)
   \<and> ok 200
   \<and> sessionStorage (filled None) = None
   \<and> toasts (onSubmit scenario_data (stub (Response 200 (Json_body low_risk))) 1730000000000
         first_stamp (filled None))
       = [\<lparr>title = ''Prediction Complete'',
           description = ''Risk level: Low (82% confidence)'', variant = None\<rparr>]
   \<and> sessionStorage (filled (Some Empty_string)) = Some Empty_string
   \<and> loadHistory (filled (Some Empty_string)) = Inr (filled (Some Empty_string))
   \<and> toasts (onSubmit scenario_data (stub (Response 200 (Json_body low_risk))) 1730000000000
         first_stamp (filled (Some Empty_string)))
       = [\<lparr>title = ''Prediction Complete'',
           description = ''Risk level: Low (82% confidence)'', variant = None\<rparr>]
   \<and> sessionStorage (onSubmit scenario_data (stub (Response 200 (Json_body low_risk)))
         1730000000000 first_stamp (filled (Some Empty_string)))
       = Some (Json [newEntry scenario_data low_risk 1730000000000 first_stamp])
   \<and> sessionStorage (filled (Some (Not_json broken_message))) = Some (Not_json broken_message)
   \<and> loadHistory (filled (Some (Not_json broken_message))) = Inl (SyntaxError broken_message)
   \<and> toasts (onSubmit scenario_data (stub (Response 200 (Json_body low_risk))) 1730000000000
         first_stamp (filled (Some (Not_json broken_message))))
       = [\<lparr>title = ''Error'', description = broken_message, variant = Some ''destructive''\<rparr>]
   \<and> sessionStorage (onSubmit scenario_data (stub (Response 200 (Json_body low_risk)))
         1730000000000 first_stamp (filled (Some (Not_json broken_message))))
       = Some (Not_json broken_message)"
proof -
  have answer: "stub (Response 200 (Json_body low_risk)) (requestData scenario_data)
       = Response 200 (Json_body low_risk)"
    by (simp add: stub_def)
  have status: "ok 200"
    by (simp add: ok_def)
  have absent: "sessionStorage (filled None) = None"
    by (simp add: filled_def initial_def)
  have empty: "sessionStorage (filled (Some Empty_string)) = Some Empty_string"
    by (simp add: filled_def initial_def)
  have broken: "sessionStorage (filled (Some (Not_json broken_message)))
       = Some (Not_json broken_message)"
    by (simp add: filled_def initial_def)
  have percent: "description (success_toast low_risk) = ''Risk level: Low (82% confidence)''"
    by code_simp
  note at = only_absent_or_empty_history_is_recovered
         [where fetch = "stub (Response 200 (Json_body low_risk))" and d = scenario_data
            and status = 200 and r = low_risk and now = 1730000000000 and stamp = first_stamp,
          OF answer status]
  from at [where s = "filled None" and m = broken_message]
    at [where s = "filled (Some Empty_string)" and m = broken_message]
    at [where s = "filled (Some (Not_json broken_message))" and m = broken_message]
  show ?thesis
    using answer status absent empty broken
    by (simp add: percent filled_def initial_def)
qed

text \<open>
  C3, as stated, fails: at the start of a session whose key holds the text \<open>broken\<close>,
  \<open>loadHistory\<close> does not return an empty log, it throws.
\<close>

theorem load_unparsable_counterexample:
  "loadHistory (initial (Some (Not_json broken_message))) = Inl (SyntaxError broken_message)"
  by (simp add: loadHistory_cases initial_def)

text \<open>
  C3, amended. \<open>loadHistory\<close>, run when the history is initialised, gives the stored log
  when the key holds the JSON text of one, and the empty log when the key is absent or
  holds the empty string; when the stored text is not JSON it throws the \<open>SyntaxError\<close>
  of \<open>JSON.parse\<close>, which nothing catches.
\<close>

theorem load_returns_stored_log_or_throws:
  "history (initial stored) = []
   \<and> loadHistory (initial stored)
       = (case stored of
            None \<Rightarrow> Inr (initial stored)
          | Some Empty_string \<Rightarrow> Inr (initial stored)
          | Some (Json entries) \<Rightarrow> Inr ((initial stored)\<lparr>history := entries\<rparr>)
          | Some (Not_json m) \<Rightarrow> Inl (SyntaxError m))"
  by (simp add: loadHistory_cases initial_def split: option.splits item.splits)

theorem load_returns_stored_log_or_throws_witness:
  "map_sum error_message history (loadHistory (initial None)) = Inr []
   \<and> map_sum error_message history (loadHistory (initial (Some Empty_string))) = Inr []
   \<and> map_sum error_message history
        (loadHistory (initial (Some (Json [newEntry scenario_data low_risk 1730000000000 first_stamp]))))
       = Inr [newEntry scenario_data low_risk 1730000000000 first_stamp]
   \<and> map_sum error_message history (loadHistory (initial (Some (Not_json broken_message))))
       = Inl broken_message"
  using load_returns_stored_log_or_throws [of None]
    load_returns_stored_log_or_throws [of "Some Empty_string"]
    load_returns_stored_log_or_throws
      [of "Some (Json [newEntry scenario_data low_risk 1730000000000 first_stamp])"]
    load_returns_stored_log_or_throws [of "Some (Not_json broken_message)"]
  by simp

text \<open>
  C6. Starting from an empty log, eleven appends in a row leave a stored log of exactly
  ten entries, the last ten appended with the newest first: the first one appended is
  the one dropped. After every prefix of the run the log holds the newest entries of the
  prefix, newest first, and never more than ten.
\<close>

theorem eleven_appends_keep_the_last_ten:
  assumes "read_history s = Inr []"
    and "length xs = 11"
  shows "(\<exists>s'. appends xs s = Inr s'
            \<and> sessionStorage s' = Some (Json (rev (map entry_of (drop 1 xs))))
            \<and> length (rev (map entry_of (drop 1 xs))) = 10)
    \<and> (\<exists>s' entries. appends (take k xs) s = Inr s'
            \<and> read_history s' = Inr entries
            \<and> entries = take 10 (rev (map entry_of (take k xs)))
            \<and> length entries \<le> 10)"
proof -
  obtain x ys where xs: "xs = x # ys" and ys: "length ys = 10"
    using assms(2) by (cases xs) simp_all
  have last_ten: "take 10 (rev (map entry_of xs)) = rev (map entry_of (drop 1 xs))"
    using xs ys by simp
  from appends_read [OF assms(1), of xs]
  obtain s' where "appends xs s = Inr s'"
    and "sessionStorage s' = Some (Json (take 10 (rev (map entry_of xs))))"
    using xs by auto
  then have whole: "\<exists>s'. appends xs s = Inr s'
            \<and> sessionStorage s' = Some (Json (rev (map entry_of (drop 1 xs))))
            \<and> length (rev (map entry_of (drop 1 xs))) = 10"
    unfolding last_ten using xs ys by simp
  from appends_read [OF assms(1), of "take k xs"]
  have "\<exists>s' entries. appends (take k xs) s = Inr s'
            \<and> read_history s' = Inr entries
            \<and> entries = take 10 (rev (map entry_of (take k xs)))
            \<and> length entries \<le> 10"
    by auto
  with whole show ?thesis by blast
qed

theorem eleven_appends_keep_the_last_ten_witness:
  "read_history (initial None) = Inr []
   \<and> length eleven_appends = 11
   \<and> (\<exists>s'. appends eleven_appends (initial None) = Inr s'
         \<and> sessionStorage s' = Some (Json (rev (map entry_of (drop 1 eleven_appends)))))
   \<and> map entry_id (rev (map entry_of (drop 1 eleven_appends)))
       = [''1730000000010'', ''1730000000009'', ''1730000000008'', ''1730000000007'',
          ''1730000000006'', ''1730000000005'', ''1730000000004'', ''1730000000003'',
          ''1730000000002'', ''1730000000001'']"
proof -
  have empty: "read_history (initial None) = Inr []"
    by (simp add: read_history_cases initial_def)
  have eleven: "length eleven_appends = 11"
    by (simp add: eleven_appends_def)
  have ids: "map entry_id (rev (map entry_of (drop 1 eleven_appends)))
       = [''1730000000010'', ''1730000000009'', ''1730000000008'', ''1730000000007'',
          ''1730000000006'', ''1730000000005'', ''1730000000004'', ''1730000000003'',
          ''1730000000002'', ''1730000000001'']"
    by code_simp
  from eleven_appends_keep_the_last_ten [OF empty eleven, of 11]
  show ?thesis
    using empty eleven ids by blast
qed


section \<open>The claim about empty numeric inputs\<close>

text \<open>
  C10, as stated, fails: a numeric input that the user never edits is not coerced to 0.
  Its value stays \<open>undefined\<close>, and submitting the form rejects it with the type issue of
  \<open>z.number()\<close> and the library's message, not with the issue of the minimum.
\<close>

theorem untouched_numeric_field_counterexample:
  "age (field_values (initial None)) = None
   \<and> errors (handleSubmit (stub (Response 200 (Json_body low_risk))) 1730000000000 first_stamp
        (initial None)) ''age''
       = Some (invalid_type, Library_default)"
  by (intro conjI; code_simp)

lemma z_number_find_unset:
  "find (\<lambda>i. path i = p) (issues_of (z_number lo lm hi hm p None))
     = Some \<lparr>path = p, code = invalid_type, message = Library_default\<rparr>"
  by (simp add: z_number_def)

lemma unset_violates:
  "age v = None \<Longrightarrow> violates v ''age''"
  "height v = None \<Longrightarrow> violates v ''height''"
  "weight v = None \<Longrightarrow> violates v ''weight''"
  "ap_hi v = None \<Longrightarrow> violates v ''ap_hi''"
  "ap_lo v = None \<Longrightarrow> violates v ''ap_lo''"
  by (simp_all add: violates_def in_range_def)

lemma age_unset_error:
  "age v = None \<Longrightarrow>
   parseErrorSchema (issues_of (formSchema v)) Map.empty ''age''
     = Some (invalid_type, Library_default)"
  by (simp add: parseErrorSchema_find formSchema_issues find_append_cases z_number_find_unset)

lemma height_unset_error:
  "height v = None \<Longrightarrow>
   parseErrorSchema (issues_of (formSchema v)) Map.empty ''height''
     = Some (invalid_type, Library_default)"
  by (simp add: parseErrorSchema_find formSchema_issues find_append_cases z_number_find_unset
        z_number_find_other z_enum_find_other)

lemma weight_unset_error:
  "weight v = None \<Longrightarrow>
   parseErrorSchema (issues_of (formSchema v)) Map.empty ''weight''
     = Some (invalid_type, Library_default)"
  by (simp add: parseErrorSchema_find formSchema_issues find_append_cases z_number_find_unset
        z_number_find_other z_enum_find_other)

lemma ap_hi_unset_error:
  "ap_hi v = None \<Longrightarrow>
   parseErrorSchema (issues_of (formSchema v)) Map.empty ''ap_hi''
     = Some (invalid_type, Library_default)"
  by (simp add: parseErrorSchema_find formSchema_issues find_append_cases z_number_find_unset
        z_number_find_other z_enum_find_other)

lemma ap_lo_unset_error:
  "ap_lo v = None \<Longrightarrow>
   parseErrorSchema (issues_of (formSchema v)) Map.empty ''ap_lo''
     = Some (invalid_type, Library_default)"
  by (simp add: parseErrorSchema_find formSchema_issues find_append_cases z_number_find_unset
        z_number_find_other z_enum_find_other)

lemma handleSubmit_error_of_violation:
  "violates (field_values s) f \<Longrightarrow>
   errors (handleSubmit fetch now stamp s) p
     = parseErrorSchema (issues_of (formSchema (field_values s))) Map.empty p"
proof -
  assume "violates (field_values s) f"
  then have "isl (formSchema (field_values s))"
    unfolding formSchema_isl by blast
  then show ?thesis
    by (simp add: handleSubmit_errors)
qed

lemma edit_sets_zero:
  assumes "parseInt text = NaN"
  shows "age (field_values (onChange_age text s)) = Some 0"
    and "height (field_values (onChange_height text s)) = Some 0"
    and "weight (field_values (onChange_weight text s)) = Some 0"
    and "ap_hi (field_values (onChange_ap_hi text s)) = Some 0"
    and "ap_lo (field_values (onChange_ap_lo text s)) = Some 0"
  using assms
  by (simp_all add: onChange_age_def onChange_height_def onChange_weight_def
        onChange_ap_hi_def onChange_ap_lo_def)

lemma edit_leaves_the_other_fields:
  "height (field_values (onChange_age text s)) = height (field_values s)"
  "weight (field_values (onChange_age text s)) = weight (field_values s)"
  "ap_hi (field_values (onChange_age text s)) = ap_hi (field_values s)"
  "ap_lo (field_values (onChange_age text s)) = ap_lo (field_values s)"
  "age (field_values (onChange_height text s)) = age (field_values s)"
  "weight (field_values (onChange_height text s)) = weight (field_values s)"
  "ap_hi (field_values (onChange_height text s)) = ap_hi (field_values s)"
  "ap_lo (field_values (onChange_height text s)) = ap_lo (field_values s)"
  "age (field_values (onChange_weight text s)) = age (field_values s)"
  "height (field_values (onChange_weight text s)) = height (field_values s)"
  "ap_hi (field_values (onChange_weight text s)) = ap_hi (field_values s)"
  "ap_lo (field_values (onChange_weight text s)) = ap_lo (field_values s)"
  "age (field_values (onChange_ap_hi text s)) = age (field_values s)"
  "height (field_values (onChange_ap_hi text s)) = height (field_values s)"
  "weight (field_values (onChange_ap_hi text s)) = weight (field_values s)"
  "ap_lo (field_values (onChange_ap_hi text s)) = ap_lo (field_values s)"
  "age (field_values (onChange_ap_lo text s)) = age (field_values s)"
  "height (field_values (onChange_ap_lo text s)) = height (field_values s)"
  "weight (field_values (onChange_ap_lo text s)) = weight (field_values s)"
  "ap_hi (field_values (onChange_ap_lo text s)) = ap_hi (field_values s)"
  by (simp_all add: onChange_age_def onChange_height_def onChange_weight_def
        onChange_ap_hi_def onChange_ap_lo_def)

text \<open>
  C10, amended. When an edit of a numeric input delivers a text in which \<open>parseInt\<close>
  finds no number (the empty text, a text that does not start with digits), the value of
  the field becomes 0, and submitting rejects the field with the issue and the message of
  its minimum. A numeric input that is never edited is not coerced: all five are unset
  when the form starts, an edit of one input leaves the other four as they are, and
  submitting with a numeric field unset rejects that field with the type issue of
  \<open>z.number()\<close> and the library's message. This holds for each of the five numeric inputs.
\<close>

theorem numeric_field_edited_without_number_or_never_edited:
  "(parseInt typed = NaN \<longrightarrow>
      age (field_values (onChange_age typed s)) = Some 0
      \<and> errors (handleSubmit fetch now stamp (onChange_age typed s)) ''age''
          = Some (too_small, Message ''Age must be at least 1 day'')
      \<and> height (field_values (onChange_height typed s)) = Some 0
      \<and> errors (handleSubmit fetch now stamp (onChange_height typed s)) ''height''
          = Some (too_small, Message ''Height must be at least 50 cm'')
      \<and> weight (field_values (onChange_weight typed s)) = Some 0
      \<and> errors (handleSubmit fetch now stamp (onChange_weight typed s)) ''weight''
          = Some (too_small, Message ''Weight must be at least 10 kg'')
      \<and> ap_hi (field_values (onChange_ap_hi typed s)) = Some 0
      \<and> errors (handleSubmit fetch now stamp (onChange_ap_hi typed s)) ''ap_hi''
          = Some (too_small, Message ''Systolic pressure must be at least 70'')
      \<and> ap_lo (field_values (onChange_ap_lo typed s)) = Some 0
      \<and> errors (handleSubmit fetch now stamp (onChange_ap_lo typed s)) ''ap_lo''
          = Some (too_small, Message ''Diastolic pressure must be at least 40''))
   \<and> age (field_values (initial stored)) = None
   \<and> height (field_values (initial stored)) = None
   \<and> weight (field_values (initial stored)) = None
   \<and> ap_hi (field_values (initial stored)) = None
   \<and> ap_lo (field_values (initial stored)) = None
   \<and> height (field_values (onChange_age typed s)) = height (field_values s)
   \<and> weight (field_values (onChange_age typed s)) = weight (field_values s)
   \<and> ap_hi (field_values (onChange_age typed s)) = ap_hi (field_values s)
   \<and> ap_lo (field_values (onChange_age typed s)) = ap_lo (field_values s)
   \<and> age (field_values (onChange_height typed s)) = age (field_values s)
   \<and> weight (field_values (onChange_height typed s)) = weight (field_values s)
   \<and> ap_hi (field_values (onChange_height typed s)) = ap_hi (field_values s)
   \<and> ap_lo (field_values (onChange_height typed s)) = ap_lo (field_values s)
   \<and> age (field_values (onChange_weight typed s)) = age (field_values s)
   \<and> height (field_values (onChange_weight typed s)) = height (field_values s)
   \<and> ap_hi (field_values (onChange_weight typed s)) = ap_hi (field_values s)
   \<and> ap_lo (field_values (onChange_weight typed s)) = ap_lo (field_values s)
   \<and> age (field_values (onChange_ap_hi typed s)) = age (field_values s)
   \<and> height (field_values (onChange_ap_hi typed s)) = height (field_values s)
   \<and> weight (field_values (onChange_ap_hi typed s)) = weight (field_values s)
   \<and> ap_lo (field_values (onChange_ap_hi typed s)) = ap_lo (field_values s)
   \<and> age (field_values (onChange_ap_lo typed s)) = age (field_values s)
   \<and> height (field_values (onChange_ap_lo typed s)) = height (field_values s)
   \<and> weight (field_values (onChange_ap_lo typed s)) = weight (field_values s)
   \<and> ap_hi (field_values (onChange_ap_lo typed s)) = ap_hi (field_values s)
   \<and> (age (field_values s) = None \<longrightarrow>
        errors (handleSubmit fetch now stamp s) ''age'' = Some (invalid_type, Library_default))
   \<and> (height (field_values s) = None \<longrightarrow>
        errors (handleSubmit fetch now stamp s) ''height'' = Some (invalid_type, Library_default))
   \<and> (weight (field_values s) = None \<longrightarrow>
        errors (handleSubmit fetch now stamp s) ''weight'' = Some (invalid_type, Library_default))
   \<and> (ap_hi (field_values s) = None \<longrightarrow>
        errors (handleSubmit fetch now stamp s) ''ap_hi'' = Some (invalid_type, Library_default))
   \<and> (ap_lo (field_values s) = None \<longrightarrow>
        errors (handleSubmit fetch now stamp s) ''ap_lo'' = Some (invalid_type, Library_default))"
proof -
  have edited: "age (field_values (onChange_age typed s)) = Some 0
      \<and> errors (handleSubmit fetch now stamp (onChange_age typed s)) ''age''
          = Some (too_small, Message ''Age must be at least 1 day'')
      \<and> height (field_values (onChange_height typed s)) = Some 0
      \<and> errors (handleSubmit fetch now stamp (onChange_height typed s)) ''height''
          = Some (too_small, Message ''Height must be at least 50 cm'')
      \<and> weight (field_values (onChange_weight typed s)) = Some 0
      \<and> errors (handleSubmit fetch now stamp (onChange_weight typed s)) ''weight''
          = Some (too_small, Message ''Weight must be at least 10 kg'')
      \<and> ap_hi (field_values (onChange_ap_hi typed s)) = Some 0
      \<and> errors (handleSubmit fetch now stamp (onChange_ap_hi typed s)) ''ap_hi''
          = Some (too_small, Message ''Systolic pressure must be at least 70'')
      \<and> ap_lo (field_values (onChange_ap_lo typed s)) = Some 0
      \<and> errors (handleSubmit fetch now stamp (onChange_ap_lo typed s)) ''ap_lo''
          = Some (too_small, Message ''Diastolic pressure must be at least 40'')"
    if nan: "parseInt typed = NaN"
  proof -
    note zero = edit_sets_zero [OF nan, of s]
    show ?thesis
      by (simp add: zero
            handleSubmit_error_of_violation [OF zero_violates(1) [OF zero(1)]]
            handleSubmit_error_of_violation [OF zero_violates(2) [OF zero(2)]]
            handleSubmit_error_of_violation [OF zero_violates(3) [OF zero(3)]]
            handleSubmit_error_of_violation [OF zero_violates(4) [OF zero(4)]]
            handleSubmit_error_of_violation [OF zero_violates(5) [OF zero(5)]]
            age_zero_error [OF zero(1)] height_zero_error [OF zero(2)]
            weight_zero_error [OF zero(3)] ap_hi_zero_error [OF zero(4)]
            ap_lo_zero_error [OF zero(5)])
  qed
  have start: "age (field_values (initial stored)) = None
      \<and> height (field_values (initial stored)) = None
      \<and> weight (field_values (initial stored)) = None
      \<and> ap_hi (field_values (initial stored)) = None
      \<and> ap_lo (field_values (initial stored)) = None"
    by (simp add: initial_def defaultValues_def)
  have a: "errors (handleSubmit fetch now stamp s) ''age'' = Some (invalid_type, Library_default)"
    if "age (field_values s) = None"
    by (simp add: handleSubmit_error_of_violation [OF unset_violates(1) [OF that]]
          age_unset_error [OF that])
  have h: "errors (handleSubmit fetch now stamp s) ''height'' = Some (invalid_type, Library_default)"
    if "height (field_values s) = None"
    by (simp add: handleSubmit_error_of_violation [OF unset_violates(2) [OF that]]
          height_unset_error [OF that])
  have w: "errors (handleSubmit fetch now stamp s) ''weight'' = Some (invalid_type, Library_default)"
    if "weight (field_values s) = None"
    by (simp add: handleSubmit_error_of_violation [OF unset_violates(3) [OF that]]
          weight_unset_error [OF that])
  have hi: "errors (handleSubmit fetch now stamp s) ''ap_hi'' = Some (invalid_type, Library_default)"
    if "ap_hi (field_values s) = None"
    by (simp add: handleSubmit_error_of_violation [OF unset_violates(4) [OF that]]
          ap_hi_unset_error [OF that])
  have lo: "errors (handleSubmit fetch now stamp s) ''ap_lo'' = Some (invalid_type, Library_default)"
    if "ap_lo (field_values s) = None"
    by (simp add: handleSubmit_error_of_violation [OF unset_violates(5) [OF that]]
          ap_lo_unset_error [OF that])
  show ?thesis
    using edited start a h w hi lo
    by (simp only: edit_leaves_the_other_fields simp_thms) blast
qed

theorem numeric_field_edited_without_number_or_never_edited_witness:
  "parseInt '''' = NaN
   \<and> age (field_values (onChange_age '''' (initial None))) = Some 0
   \<and> errors (handleSubmit (stub (Response 200 (Json_body low_risk))) 1730000000000 first_stamp
        (onChange_age '''' (initial None))) ''age''
       = Some (too_small, Message ''Age must be at least 1 day'')
   \<and> errors (handleSubmit (stub (Response 200 (Json_body low_risk))) 1730000000000 first_stamp
        (onChange_ap_lo '''' (initial None))) ''ap_lo''
       = Some (too_small, Message ''Diastolic pressure must be at least 40'')
   \<and> age (field_values (initial None)) = None
   \<and> height (field_values (initial None)) = None
   \<and> weight (field_values (initial None)) = None
   \<and> ap_hi (field_values (initial None)) = None
   \<and> ap_lo (field_values (initial None)) = None
   \<and> errors (handleSubmit (stub (Response 200 (Json_body low_risk))) 1730000000000 first_stamp
        (initial None)) ''age'' = Some (invalid_type, Library_default)
   \<and> errors (handleSubmit (stub (Response 200 (Json_body low_risk))) 1730000000000 first_stamp
        (initial None)) ''height'' = Some (invalid_type, Library_default)
   \<and> errors (handleSubmit (stub (Response 200 (Json_body low_risk))) 1730000000000 first_stamp
        (initial None)) ''weight'' = Some (invalid_type, Library_default)
   \<and> errors (handleSubmit (stub (Response 200 (Json_body low_risk))) 1730000000000 first_stamp
        (initial None)) ''ap_hi'' = Some (invalid_type, Library_default)
   \<and> errors (handleSubmit (stub (Response 200 (Json_body low_risk))) 1730000000000 first_stamp
        (initial None)) ''ap_lo'' = Some (invalid_type, Library_default)"
proof -
  have empty: "parseInt '''' = NaN"
    by code_simp
  from numeric_field_edited_without_number_or_never_edited
         [where typed = "''''" and s = "initial None" and stored = None
            and fetch = "stub (Response 200 (Json_body low_risk))"
            and now = 1730000000000 and stamp = first_stamp]
  show ?thesis
    using empty by simp
qed

end
